theory Spec2Isabelle
  imports Complex_Main "HOL-Library.Multiset"
begin

section \<open>Data model\<close>

text \<open>
  The three lookup tables of \<^verbatim>\<open>recommendations_service.py\<close> are pandas data frames.
  A frame is modelled as the list of its rows in storage order, a row as a record of its
  columns. Identifiers are strings (the loader casts the track columns with
  \<^verbatim>\<open>astype(str)\<close>); scores are floats, of which the code only uses the order, so they
  are reals here (rows with a missing score are outside the model).
\<close>

record personal_row =
  pr_user_id :: string
  pr_track_id :: string
  pr_score :: real

record similar_row =
  st_track_id :: string
  st_similar_track_id :: string
  st_similarity_score :: real

record popular_row =
  tp_track_id :: string
  tp_popularity_score :: real

text \<open>The object \<^verbatim>\<open>self\<close> of class \<^verbatim>\<open>RecommendationEngine\<close>: its three attributes.\<close>

record engine =
  personal_recs :: "personal_row list"
  similar_tracks :: "similar_row list"
  top_popular :: "popular_row list"

section \<open>Library operations used by the engine\<close>

text \<open>
  Python's \<^verbatim>\<open>xs[:n]\<close>: the first \<open>n\<close> elements, and for a negative \<open>n\<close> all elements but
  the last \<open>-n\<close>.
\<close>

definition slice_to :: "int \<Rightarrow> 'a list \<Rightarrow> 'a list" where
  "slice_to n xs =
     (if 0 \<le> n then take (nat n) xs else take (length xs - nat (- n)) xs)"

text \<open>pandas' \<^verbatim>\<open>DataFrame.head(n)\<close> is \<^verbatim>\<open>self.iloc[:n]\<close>.\<close>

definition head :: "int \<Rightarrow> 'a list \<Rightarrow> 'a list" where
  "head n df = slice_to n df"

text \<open>
  pandas' \<^verbatim>\<open>df.sort_values(col, ascending=False)\<close> computes an indexer from the key column
  (\<^verbatim>\<open>nargsort(k, kind, ascending, na_position)\<close>) and returns the rows taken at these
  positions. The engine passes no \<^verbatim>\<open>kind\<close>, so the library's default sort runs; it is not
  part of the repository and is a parameter \<open>argsort\<close> of the model: from the key column to
  the positions of the rows in the sorted frame.
\<close>

type_synonym argsort = "real list \<Rightarrow> nat list"

definition sort_values :: "argsort \<Rightarrow> ('r \<Rightarrow> real) \<Rightarrow> 'r list \<Rightarrow> 'r list" where
  "sort_values argsort col df = map (\<lambda>i. df ! i) (argsort (map col df))"

text \<open>
  What every sort of the library guarantees for \<^verbatim>\<open>ascending=False\<close>: the indexer is a
  permutation of the row positions, and the keys read in its order do not increase.
\<close>

definition descending_argsort :: "argsort \<Rightarrow> bool" where
  "descending_argsort argsort \<longleftrightarrow>
     (\<forall>ks. mset (argsort ks) = mset [0..<length ks] \<and>
           sorted (rev (map (\<lambda>i. ks ! i) (argsort ks))))"

text \<open>
  Two sorts that meet this contract. The first is a stable one (\<^verbatim>\<open>kind='stable'\<close>): rows
  with equal keys keep their storage order. The second sorts ascending and reverses the
  indexer, which puts rows with equal keys in reverse storage order.
\<close>

definition stable_argsort :: argsort where
  "stable_argsort ks = map snd (sort_key (\<lambda>p. - fst p) (zip ks [0..<length ks]))"

definition reversing_argsort :: argsort where
  "reversing_argsort ks = rev (map snd (sort_key fst (zip ks [0..<length ks])))"

section \<open>The recommendation engine\<close>

text \<open>
  Every method takes \<^verbatim>\<open>self\<close> and returns its value together with \<^verbatim>\<open>self\<close> as the method
  leaves it, so that what a method does to the tables is part of the model.
\<close>

definition get_personal_recommendations ::
    "argsort \<Rightarrow> string \<Rightarrow> int \<Rightarrow> engine \<Rightarrow> string list \<times> engine" where
  "get_personal_recommendations argsort user_id n self =
     (let user_recs = sort_values argsort pr_score
                        (filter (\<lambda>r. pr_user_id r = user_id) (personal_recs self))
      in if length user_recs = 0 then ([], self)
         else (map pr_track_id (head n user_recs), self))"

text \<open>The \<^verbatim>\<open>for\<close> loop of \<^verbatim>\<open>get_similar_tracks\<close>, with the list \<^verbatim>\<open>similar_list\<close> it extends.\<close>

fun similar_loop ::
    "argsort \<Rightarrow> int \<Rightarrow> string list \<Rightarrow> string list \<Rightarrow> engine \<Rightarrow> string list \<times> engine" where
  "similar_loop argsort n_per_track [] similar_list self = (similar_list, self)"
| "similar_loop argsort n_per_track (track_id # rest) similar_list self =
     (let track_similar = sort_values argsort st_similarity_score
                            (filter (\<lambda>r. st_track_id r = track_id) (similar_tracks self))
      in if length track_similar > 0
         then similar_loop argsort n_per_track rest
                (similar_list @ map st_similar_track_id (head n_per_track track_similar)) self
         else similar_loop argsort n_per_track rest similar_list self)"

definition get_similar_tracks ::
    "argsort \<Rightarrow> string list \<Rightarrow> int \<Rightarrow> engine \<Rightarrow> string list \<times> engine" where
  "get_similar_tracks argsort track_ids n_per_track self =
     (if track_ids = [] then ([], self)
      else similar_loop argsort n_per_track track_ids [] self)"

definition get_top_popular :: "int \<Rightarrow> engine \<Rightarrow> string list \<times> engine" where
  "get_top_popular n self = (map tp_track_id (head n (top_popular self)), self)"

text \<open>
  The candidate list \<^verbatim>\<open>all_recommendations\<close> of \<^verbatim>\<open>mix_recommendations\<close> as it stands before
  deduplication: personal first, then the tracks similar to the history when there is a
  history, then the popular tracks not yet in the list when the list is shorter than
  \<open>n_recommendations\<close>.
\<close>

definition all_recommendations ::
    "string list \<Rightarrow> string list \<Rightarrow> string list \<Rightarrow> string list \<Rightarrow> int \<Rightarrow> string list" where
  "all_recommendations personal similar_online popular online_history n_recommendations =
     (let all0 = [] @ personal;
          all1 = (if online_history \<noteq> [] then all0 @ similar_online else all0)
      in if int (length all1) < n_recommendations
         then all1 @ filter (\<lambda>track. track \<notin> set all1) popular
         else all1)"

text \<open>The deduplication loop, with its set \<^verbatim>\<open>seen\<close> and its list \<^verbatim>\<open>unique_recommendations\<close>.\<close>

fun unique_loop :: "string list \<Rightarrow> string set \<Rightarrow> string list \<Rightarrow> string list" where
  "unique_loop [] seen unique_recommendations = unique_recommendations"
| "unique_loop (track # rest) seen unique_recommendations =
     (if track \<notin> seen
      then unique_loop rest (insert track seen) (unique_recommendations @ [track])
      else unique_loop rest seen unique_recommendations)"

definition strategy_of :: "string list \<Rightarrow> string list \<Rightarrow> string" where
  "strategy_of online_history personal =
     (if online_history \<noteq> [] \<and> personal \<noteq> [] then ''online_history + personal''
      else if online_history \<noteq> [] then ''online_history + top_popular''
      else if personal \<noteq> [] then ''personal_only''
      else ''top_popular_only'')"

definition mix_recommendations ::
    "argsort \<Rightarrow> string \<Rightarrow> string list \<Rightarrow> int \<Rightarrow> engine \<Rightarrow> (string list \<times> string) \<times> engine" where
  "mix_recommendations argsort user_id online_history n_recommendations self =
     (let (personal, self1) = get_personal_recommendations argsort user_id n_recommendations self;
          (similar_online, self2) = get_similar_tracks argsort online_history 2 self1;
          (popular, self3) = get_top_popular (n_recommendations * 2) self2;
          candidates = all_recommendations personal similar_online popular
                         online_history n_recommendations;
          unique_recommendations = unique_loop candidates {} [];
          history_set = set online_history;
          final_recommendations = filter (\<lambda>track. track \<notin> history_set) unique_recommendations;
          strategy = strategy_of online_history personal
      in ((slice_to n_recommendations final_recommendations, strategy), self3))"

section \<open>Notions used to state the properties\<close>

text \<open>The position of the first occurrence of \<open>a\<close> in a list (its length when absent).\<close>

fun first_index :: "'a list \<Rightarrow> 'a \<Rightarrow> nat" where
  "first_index [] a = 0"
| "first_index (x # xs) a = (if x = a then 0 else Suc (first_index xs a))"

text \<open>
  The first occurrences of a list, in order: what "deduplicate while preserving
  first-occurrence order" asks for, written without a seen-set.
\<close>

fun first_occurrences :: "'a list \<Rightarrow> 'a list" where
  "first_occurrences [] = []"
| "first_occurrences (x # xs) = x # first_occurrences (filter (\<lambda>y. y \<noteq> x) xs)"

text \<open>Tables to run the engine on.\<close>

definition demo_engine :: engine where
  "demo_engine =
     \<lparr>personal_recs =
        [\<lparr>pr_user_id = ''u1'', pr_track_id = ''t2'', pr_score = 0.5\<rparr>,
         \<lparr>pr_user_id = ''u1'', pr_track_id = ''t1'', pr_score = 0.9\<rparr>,
         \<lparr>pr_user_id = ''u2'', pr_track_id = ''t8'', pr_score = 0.7\<rparr>,
         \<lparr>pr_user_id = ''u1'', pr_track_id = ''t3'', pr_score = 0.5\<rparr>],
      similar_tracks =
        [\<lparr>st_track_id = ''t5'', st_similar_track_id = ''t7'', st_similarity_score = 0.3\<rparr>,
         \<lparr>st_track_id = ''t5'', st_similar_track_id = ''t6'', st_similarity_score = 0.8\<rparr>,
         \<lparr>st_track_id = ''t4'', st_similar_track_id = ''t1'', st_similarity_score = 0.6\<rparr>],
      top_popular =
        [\<lparr>tp_track_id = ''t1'', tp_popularity_score = 10\<rparr>,
         \<lparr>tp_track_id = ''t5'', tp_popularity_score = 9\<rparr>,
         \<lparr>tp_track_id = ''p3'', tp_popularity_score = 8\<rparr>]\<rparr>"

text \<open>Only the popularity table has rows, and the two most popular tracks were just played.\<close>

definition popular_only_engine :: engine where
  "popular_only_engine =
     \<lparr>personal_recs = [], similar_tracks = [],
      top_popular =
        [\<lparr>tp_track_id = ''h1'', tp_popularity_score = 3\<rparr>,
         \<lparr>tp_track_id = ''h2'', tp_popularity_score = 2\<rparr>,
         \<lparr>tp_track_id = ''x'', tp_popularity_score = 1\<rparr>]\<rparr>"

text \<open>A popularity table that lists one track twice.\<close>

definition repeated_popular_engine :: engine where
  "repeated_popular_engine =
     \<lparr>personal_recs = [], similar_tracks = [],
      top_popular =
        [\<lparr>tp_track_id = ''a'', tp_popularity_score = 2\<rparr>,
         \<lparr>tp_track_id = ''a'', tp_popularity_score = 2\<rparr>]\<rparr>"

text \<open>One personal recommendation, which the user has just played, and one popular track.\<close>

definition played_engine :: engine where
  "played_engine =
     \<lparr>personal_recs = [\<lparr>pr_user_id = ''u'', pr_track_id = ''a'', pr_score = 1\<rparr>],
      similar_tracks = [],
      top_popular = [\<lparr>tp_track_id = ''p'', tp_popularity_score = 1\<rparr>]\<rparr>"

text \<open>Two personal rows with the same score.\<close>

definition tie_engine :: engine where
  "tie_engine =
     \<lparr>personal_recs =
        [\<lparr>pr_user_id = ''u'', pr_track_id = ''a'', pr_score = 1\<rparr>,
         \<lparr>pr_user_id = ''u'', pr_track_id = ''b'', pr_score = 1\<rparr>],
      similar_tracks =
        [\<lparr>st_track_id = ''s'', st_similar_track_id = ''a'', st_similarity_score = 1\<rparr>,
         \<lparr>st_track_id = ''s'', st_similar_track_id = ''b'', st_similarity_score = 1\<rparr>],
      top_popular = []\<rparr>"

text \<open>
  Four rows in two groups of equal score, the group of higher score stored last; the same
  scores in the personal table and in the similarity table.
\<close>

definition four_tie_engine :: engine where
  "four_tie_engine =
     \<lparr>personal_recs =
        [\<lparr>pr_user_id = ''u'', pr_track_id = ''k0'', pr_score = 1\<rparr>,
         \<lparr>pr_user_id = ''u'', pr_track_id = ''k1'', pr_score = 1\<rparr>,
         \<lparr>pr_user_id = ''u'', pr_track_id = ''k2'', pr_score = 2\<rparr>,
         \<lparr>pr_user_id = ''u'', pr_track_id = ''k3'', pr_score = 2\<rparr>],
      similar_tracks =
        [\<lparr>st_track_id = ''s'', st_similar_track_id = ''k0'', st_similarity_score = 1\<rparr>,
         \<lparr>st_track_id = ''s'', st_similar_track_id = ''k1'', st_similarity_score = 1\<rparr>,
         \<lparr>st_track_id = ''s'', st_similar_track_id = ''k2'', st_similarity_score = 2\<rparr>,
         \<lparr>st_track_id = ''s'', st_similar_track_id = ''k3'', st_similarity_score = 2\<rparr>],
      top_popular = []\<rparr>"

lemmas engine_defs =
  mix_recommendations_def get_personal_recommendations_def get_similar_tracks_def
  get_top_popular_def all_recommendations_def strategy_of_def sort_values_def
  head_def slice_to_def

section \<open>Slices\<close>

lemma length_slice_to: "0 \<le> n \<Longrightarrow> int (length (slice_to n xs)) \<le> n"
  by (simp add: slice_to_def)

lemma slice_to_nonneg: "0 \<le> n \<Longrightarrow> slice_to n xs = take (nat n) xs"
  by (simp add: slice_to_def)

lemma slice_to_take: "\<exists>k. slice_to n xs = take k xs"
  by (auto simp: slice_to_def)

lemma slice_to_Nil [simp]: "slice_to n [] = []"
  by (simp add: slice_to_def)

lemma set_slice_to: "set (slice_to n xs) \<subseteq> set xs"
  using slice_to_take [of n xs] by (auto dest: in_set_takeD)

lemma distinct_slice_to: "distinct xs \<Longrightarrow> distinct (slice_to n xs)"
  using slice_to_take [of n xs] by auto

lemma sorted_wrt_slice_to: "sorted_wrt R xs \<Longrightarrow> sorted_wrt R (slice_to n xs)"
  using slice_to_take [of n xs] by auto

section \<open>The deduplication loop keeps the first occurrences\<close>

lemma set_first_occurrences: "set (first_occurrences xs) = set xs"
  by (induction xs rule: first_occurrences.induct) auto

lemma distinct_first_occurrences: "distinct (first_occurrences xs)"
  by (induction xs rule: first_occurrences.induct) (auto simp: set_first_occurrences)

lemma first_occurrences_filter:
  "first_occurrences (filter P xs) = filter P (first_occurrences xs)"
proof (induction xs rule: first_occurrences.induct)
  case 1
  show ?case by simp
next
  case (2 x xs)
  have swap: "filter (\<lambda>y. y \<noteq> x) (filter P xs) = filter P (filter (\<lambda>y. y \<noteq> x) xs)"
    by (simp add: conj_commute)
  show ?case
  proof (cases "P x")
    case True
    with 2 swap show ?thesis by simp
  next
    case False
    have "filter P xs = filter P (filter (\<lambda>y. y \<noteq> x) xs)"
      using False by (auto intro: filter_cong)
    with False 2 show ?thesis by simp
  qed
qed

lemma unique_loop_first_occurrences:
  "unique_loop xs seen acc = acc @ first_occurrences (filter (\<lambda>t. t \<notin> seen) xs)"
proof (induction xs arbitrary: seen acc)
  case Nil
  show ?case by simp
next
  case (Cons x xs)
  have "filter (\<lambda>y. y \<noteq> x) (filter (\<lambda>t. t \<notin> seen) xs) = filter (\<lambda>t. t \<notin> insert x seen) xs"
    by (auto intro: filter_cong)
  with Cons show ?case by simp
qed

lemma unique_loop_start: "unique_loop xs {} [] = first_occurrences xs"
  by (simp add: unique_loop_first_occurrences)

lemma first_index_filter_mono:
  "P a \<Longrightarrow> P b \<Longrightarrow> first_index (filter P xs) a < first_index (filter P xs) b
     \<Longrightarrow> first_index xs a < first_index xs b"
  by (induction xs) (auto split: if_splits)

lemma sorted_first_occurrences:
  "sorted_wrt (\<lambda>a b. first_index xs a < first_index xs b) (first_occurrences xs)"
proof (induction xs rule: first_occurrences.induct)
  case 1
  show ?case by simp
next
  case (2 x xs)
  let ?ys = "filter (\<lambda>y. y \<noteq> x) xs"
  have "sorted_wrt (\<lambda>a b. first_index (x # xs) a < first_index (x # xs) b) (first_occurrences ?ys)"
  proof (rule sorted_wrt_mono_rel [OF _ 2])
    fix a b
    assume "a \<in> set (first_occurrences ?ys)" "b \<in> set (first_occurrences ?ys)"
      and lt: "first_index ?ys a < first_index ?ys b"
    then have "a \<noteq> x" "b \<noteq> x" by (auto simp: set_first_occurrences)
    with lt first_index_filter_mono [of "\<lambda>y. y \<noteq> x" a b xs]
    show "first_index (x # xs) a < first_index (x # xs) b" by simp
  qed
  then show ?case by (auto simp: set_first_occurrences)
qed

section \<open>The methods leave the engine as it is\<close>

lemma get_personal_recommendations_self:
  "snd (get_personal_recommendations argsort user_id n self) = self"
  by (simp add: get_personal_recommendations_def Let_def)

lemma similar_loop_self: "snd (similar_loop argsort k ts acc self) = self"
  by (induction ts arbitrary: acc) (simp_all add: Let_def)

lemma get_similar_tracks_self:
  "snd (get_similar_tracks argsort track_ids k self) = self"
  by (simp add: get_similar_tracks_def similar_loop_self)

lemma get_top_popular_self: "snd (get_top_popular n self) = self"
  by (simp add: get_top_popular_def)

text \<open>\<^verbatim>\<open>mix_recommendations\<close> in one expression over the three source lists.\<close>

lemma mix_recommendations_unfold:
  "mix_recommendations argsort user_id online_history n self =
     ((slice_to n (filter (\<lambda>track. track \<notin> set online_history)
          (unique_loop
             (all_recommendations
                (fst (get_personal_recommendations argsort user_id n self))
                (fst (get_similar_tracks argsort online_history 2 self))
                (fst (get_top_popular (n * 2) self)) online_history n) {} [])),
       strategy_of online_history (fst (get_personal_recommendations argsort user_id n self))),
      self)"
proof -
  obtain p where p: "get_personal_recommendations argsort user_id n self = (p, self)"
    using get_personal_recommendations_self [of argsort user_id n self]
    by (cases "get_personal_recommendations argsort user_id n self") simp
  obtain s where s: "get_similar_tracks argsort online_history 2 self = (s, self)"
    using get_similar_tracks_self [of argsort online_history 2 self]
    by (cases "get_similar_tracks argsort online_history 2 self") simp
  obtain t where t: "get_top_popular (n * 2) self = (t, self)"
    using get_top_popular_self [of "n * 2" self]
    by (cases "get_top_popular (n * 2) self") simp
  show ?thesis
    unfolding mix_recommendations_def by (simp add: p s t)
qed

section \<open>The library sort\<close>

text \<open>
  With the stable sort, \<^verbatim>\<open>sort_values\<close> is an insertion sort on the negated key; with the
  reversing one, it is the reverse of the ascending sort. Both meet the contract, and every
  sort that meets it returns the rows of the frame, the keys in descending order.
\<close>

lemma insort_key_map:
  "insort_key f (g x) (map g ys) = map g (insort_key (\<lambda>y. f (g y)) x ys)"
  by (induction ys) simp_all

lemma sort_key_map: "sort_key f (map g xs) = map g (sort_key (\<lambda>x. f (g x)) xs)"
  by (induction xs) (simp_all add: insort_key_map)

lemma zip_keys_positions:
  "zip (map col df) [0..<length df] = map (\<lambda>i. (col (df ! i), i)) [0..<length df]"
  by (rule nth_equalityI) simp_all

lemma sort_values_stable_argsort:
  "sort_values stable_argsort col df = sort_key (\<lambda>r. - col r) df"
proof -
  have "sort_values stable_argsort col df =
      map (\<lambda>i. df ! i) (sort_key (\<lambda>i. - col (df ! i)) [0..<length df])"
    by (simp add: sort_values_def stable_argsort_def zip_keys_positions sort_key_map o_def)
  also have "\<dots> = sort_key (\<lambda>r. - col r) (map (\<lambda>i. df ! i) [0..<length df])"
    by (simp add: sort_key_map)
  finally show ?thesis by (simp add: map_nth)
qed

lemma sort_values_reversing_argsort:
  "sort_values reversing_argsort col df = rev (sort_key col df)"
proof -
  have "sort_values reversing_argsort col df =
      rev (map (\<lambda>i. df ! i) (sort_key (\<lambda>i. col (df ! i)) [0..<length df]))"
    by (simp add: sort_values_def reversing_argsort_def zip_keys_positions sort_key_map o_def rev_map)
  also have "\<dots> = rev (sort_key col (map (\<lambda>i. df ! i) [0..<length df]))"
    by (simp add: sort_key_map)
  finally show ?thesis by (simp add: map_nth)
qed

lemma mset_positions_sort_key:
  "mset (map snd (sort_key f (zip ks [0..<length ks]))) = mset [0..<length ks]"
proof -
  have positions: "map snd (zip ks [0..<length ks]) = [0..<length ks]"
    by (simp add: map_snd_zip)
  have "mset (map snd (sort_key f (zip ks [0..<length ks]))) =
      image_mset snd (mset (sort_key f (zip ks [0..<length ks])))"
    by (simp only: mset_map)
  also have "\<dots> = image_mset snd (mset (zip ks [0..<length ks]))"
    by (simp only: mset_sort)
  also have "\<dots> = mset (map snd (zip ks [0..<length ks]))"
    by (simp only: mset_map)
  finally show ?thesis
    by (simp only: positions)
qed

lemma sorted_uminus: "sorted (map uminus xs) = sorted (rev (xs :: real list))"
  by (simp add: sorted_map sorted_wrt_rev)

lemma stable_argsort_descending: "descending_argsort stable_argsort"
  unfolding descending_argsort_def
proof (intro allI conjI)
  fix ks :: "real list"
  show "mset (stable_argsort ks) = mset [0..<length ks]"
    unfolding stable_argsort_def by (rule mset_positions_sort_key)
  have "map (\<lambda>i. ks ! i) (stable_argsort ks) = sort_values stable_argsort id ks"
    by (simp add: sort_values_def)
  also have "\<dots> = sort_key uminus ks"
    by (simp add: sort_values_stable_argsort)
  finally have "map uminus (map (\<lambda>i. ks ! i) (stable_argsort ks)) = map uminus (sort_key uminus ks)"
    by simp
  then have "sorted (map uminus (map (\<lambda>i. ks ! i) (stable_argsort ks)))"
    by simp
  then show "sorted (rev (map (\<lambda>i. ks ! i) (stable_argsort ks)))"
    by (simp only: sorted_uminus)
qed

lemma reversing_argsort_descending: "descending_argsort reversing_argsort"
  unfolding descending_argsort_def
proof (intro allI conjI)
  fix ks :: "real list"
  show "mset (reversing_argsort ks) = mset [0..<length ks]"
    unfolding reversing_argsort_def mset_rev by (rule mset_positions_sort_key)
  have "map (\<lambda>i. ks ! i) (reversing_argsort ks) = sort_values reversing_argsort id ks"
    by (simp add: sort_values_def)
  also have "\<dots> = rev (sort_key id ks)"
    by (simp add: sort_values_reversing_argsort)
  finally show "sorted (rev (map (\<lambda>i. ks ! i) (reversing_argsort ks)))"
    using sorted_sort_key [of id ks] by simp
qed

lemma mset_sort_values:
  assumes "descending_argsort argsort"
  shows "mset (sort_values argsort col df) = mset df"
proof -
  have "mset (argsort (map col df)) = mset [0..<length df]"
    using assms by (simp add: descending_argsort_def)
  then have "image_mset (\<lambda>i. df ! i) (mset (argsort (map col df))) =
      image_mset (\<lambda>i. df ! i) (mset [0..<length df])"
    by simp
  then have "mset (sort_values argsort col df) = mset (map (\<lambda>i. df ! i) [0..<length df])"
    by (simp add: sort_values_def)
  then show ?thesis by (simp add: map_nth)
qed

lemma sorted_sort_values:
  assumes "descending_argsort argsort"
  shows "sorted (rev (map col (sort_values argsort col df)))"
proof -
  let ?ks = "map col df"
  have "set (argsort ?ks) = set [0..<length ?ks]"
    using assms by (metis descending_argsort_def set_mset_mset)
  then have "map col (sort_values argsort col df) = map (\<lambda>i. ?ks ! i) (argsort ?ks)"
    by (auto simp: sort_values_def)
  moreover have "sorted (rev (map (\<lambda>i. ?ks ! i) (argsort ?ks)))"
    using assms by (simp add: descending_argsort_def)
  ultimately show ?thesis by simp
qed

lemma sort_values_Nil:
  "descending_argsort argsort \<Longrightarrow> sort_values argsort col [] = []"
  using mset_sort_values [of argsort col "[]"] by simp

lemma sort_values_single:
  "descending_argsort argsort \<Longrightarrow> sort_values argsort col [r] = [r]"
  using mset_sort_values [of argsort col "[r]"] by (simp add: mset_single_iff_right) 

lemma length_sort_values:
  "descending_argsort argsort \<Longrightarrow> length (sort_values argsort col df) = length df"
  using mset_sort_values [of argsort col df] by (metis size_mset)

section \<open>The strategy label\<close>

text \<open>
  C1. The strategy label of \<^verbatim>\<open>mix_recommendations\<close> is read off the decision table from
  two facts only, whether \<^verbatim>\<open>online_history\<close> is non-empty and whether the personal
  result is non-empty; the final list plays no part in it.
\<close>

theorem strategy_label_decision_table:
  "snd (fst (mix_recommendations argsort user_id online_history n self)) =
     (if online_history \<noteq> [] \<and> fst (get_personal_recommendations argsort user_id n self) \<noteq> []
        then ''online_history + personal''
      else if online_history \<noteq> [] \<and> fst (get_personal_recommendations argsort user_id n self) = []
        then ''online_history + top_popular''
      else if online_history = [] \<and> fst (get_personal_recommendations argsort user_id n self) \<noteq> []
        then ''personal_only''
      else ''top_popular_only'')"
  by (simp add: mix_recommendations_unfold strategy_of_def)

text \<open>
  The label at a request whose similar tracks are all removed by the history filter: it is
  still the one of the first row of the table.
\<close>

theorem strategy_label_decision_table_witness:
  "fst (mix_recommendations stable_argsort ''u1'' [''t5'', ''t6'', ''t7''] 5 demo_engine) =
     ([''t1'', ''t2'', ''t3''], ''online_history + personal'')"
proof -
  have list: "fst (fst (mix_recommendations stable_argsort ''u1'' [''t5'', ''t6'', ''t7''] 5
                  demo_engine)) = [''t1'', ''t2'', ''t3'']"
    by (simp add: engine_defs demo_engine_def stable_argsort_def)
  have personal: "fst (get_personal_recommendations stable_argsort ''u1'' 5 demo_engine) =
      [''t1'', ''t2'', ''t3'']"
    by (simp add: engine_defs demo_engine_def stable_argsort_def)
  have "snd (fst (mix_recommendations stable_argsort ''u1'' [''t5'', ''t6'', ''t7''] 5
                  demo_engine)) = ''online_history + personal''"
    using strategy_label_decision_table
      [of stable_argsort "''u1''" "[''t5'', ''t6'', ''t7'']" 5 demo_engine]
    by (simp add: personal)
  with list show ?thesis by (simp add: prod_eq_iff)
qed

section \<open>Length of the result\<close>

text \<open>
  C2 (amended). For \<open>n_recommendations \<ge> 0\<close> the returned list has at most
  \<open>n_recommendations\<close> entries, and none for \<open>n_recommendations = 0\<close>. A negative
  \<open>n_recommendations\<close> is not rejected: the slice then drops the last
  \<open>-n_recommendations\<close> entries of the final list, so the length, which is never negative,
  exceeds \<open>n_recommendations\<close>.
\<close>

theorem mix_length_bound:
  "0 \<le> n \<Longrightarrow>
     int (length (fst (fst (mix_recommendations argsort user_id online_history n self)))) \<le> n \<and>
     (n = 0 \<longrightarrow> fst (fst (mix_recommendations argsort user_id online_history n self)) = [])"
  by (simp add: mix_recommendations_unfold slice_to_nonneg)

theorem mix_length_bound_witness:
  "(0::int) \<le> 2 \<and>
   int (length (fst (fst (mix_recommendations stable_argsort ''u1'' [''t5''] 2 demo_engine)))) \<le> 2 \<and>
   fst (fst (mix_recommendations stable_argsort ''u1'' [''t5''] 2 demo_engine)) = [''t1'', ''t2''] \<and>
   fst (fst (mix_recommendations stable_argsort ''u1'' [''t5''] 0 demo_engine)) = []"
proof -
  have two: "int (length (fst (fst (mix_recommendations stable_argsort ''u1'' [''t5''] 2
                demo_engine)))) \<le> 2"
    using mix_length_bound [of 2 stable_argsort "''u1''" "[''t5'']" demo_engine] by simp
  have zero: "fst (fst (mix_recommendations stable_argsort ''u1'' [''t5''] 0 demo_engine)) = []"
    using mix_length_bound [of 0 stable_argsort "''u1''" "[''t5'']" demo_engine] by simp
  have "fst (fst (mix_recommendations stable_argsort ''u1'' [''t5''] 2 demo_engine)) =
      [''t1'', ''t2'']"
    by (simp add: engine_defs demo_engine_def stable_argsort_def)
  with two zero show ?thesis by simp
qed

text \<open>
  The claim as stated fails at \<open>n_recommendations = -1\<close>: user \<open>u1\<close> has three personal
  rows, \<^verbatim>\<open>head(-1)\<close> keeps two of them, no popular track is added, and the final slice
  \<^verbatim>\<open>[:-1]\<close> returns one track, which is more than \<open>-1\<close>.
\<close>

theorem mix_length_bound_counterexample:
  "fst (fst (mix_recommendations stable_argsort ''u1'' [] (- 1) demo_engine)) = [''t1''] \<and>
   \<not> int (length (fst (fst (mix_recommendations stable_argsort ''u1'' [] (- 1) demo_engine))))
       \<le> - 1"
  by (simp add: engine_defs demo_engine_def stable_argsort_def)

section \<open>History exclusion\<close>

text \<open>
  C3. No track of \<^verbatim>\<open>online_history\<close> is in the list that \<^verbatim>\<open>mix_recommendations\<close> returns.
\<close>

theorem mix_no_history_leak:
  "set (fst (fst (mix_recommendations argsort user_id online_history n self))) \<inter>
     set online_history = {}"
  using set_slice_to [of n "filter (\<lambda>track. track \<notin> set online_history)
      (unique_loop
         (all_recommendations
            (fst (get_personal_recommendations argsort user_id n self))
            (fst (get_similar_tracks argsort online_history 2 self))
            (fst (get_top_popular (n * 2) self)) online_history n) {} [])"]
  by (auto simp: mix_recommendations_unfold)

text \<open>
  A request for a user with no personal rows: the popular track \<open>t5\<close> is a candidate and is
  removed because it was just played.
\<close>

theorem mix_no_history_leak_witness:
  "fst (fst (mix_recommendations stable_argsort ''nobody'' [''t5''] 5 demo_engine)) =
     [''t6'', ''t7'', ''t1'', ''p3''] \<and>
   set (fst (fst (mix_recommendations stable_argsort ''nobody'' [''t5''] 5 demo_engine))) \<inter>
     set [''t5''] = {}"
proof -
  have "fst (fst (mix_recommendations stable_argsort ''nobody'' [''t5''] 5 demo_engine)) =
      [''t6'', ''t7'', ''t1'', ''p3'']"
    by (simp add: engine_defs demo_engine_def stable_argsort_def)
  with mix_no_history_leak [of stable_argsort "''nobody''" "[''t5'']" 5 demo_engine]
  show ?thesis by simp
qed

section \<open>Deduplication\<close>

text \<open>
  C4. The list that \<^verbatim>\<open>mix_recommendations\<close> returns has no track twice. Its tracks are
  candidates, and they stand in the order of their first occurrences in the candidate
  list (personal, then similar to the history, then popular): of the copies of a candidate,
  the first is the one that is kept.
\<close>

theorem mix_distinct_first_occurrence:
  "distinct (fst (fst (mix_recommendations argsort user_id online_history n self))) \<and>
   set (fst (fst (mix_recommendations argsort user_id online_history n self))) \<subseteq>
     set (all_recommendations
            (fst (get_personal_recommendations argsort user_id n self))
            (fst (get_similar_tracks argsort online_history 2 self))
            (fst (get_top_popular (n * 2) self)) online_history n) \<and>
   sorted_wrt
     (\<lambda>a b. first_index
                (all_recommendations
                   (fst (get_personal_recommendations argsort user_id n self))
                   (fst (get_similar_tracks argsort online_history 2 self))
                   (fst (get_top_popular (n * 2) self)) online_history n) a
            < first_index
                (all_recommendations
                   (fst (get_personal_recommendations argsort user_id n self))
                   (fst (get_similar_tracks argsort online_history 2 self))
                   (fst (get_top_popular (n * 2) self)) online_history n) b)
     (fst (fst (mix_recommendations argsort user_id online_history n self)))"
proof -
  define c where "c = all_recommendations
      (fst (get_personal_recommendations argsort user_id n self))
      (fst (get_similar_tracks argsort online_history 2 self))
      (fst (get_top_popular (n * 2) self)) online_history n"
  define f where "f = filter (\<lambda>track. track \<notin> set online_history) (first_occurrences c)"
  have r: "fst (fst (mix_recommendations argsort user_id online_history n self)) = slice_to n f"
    by (simp add: mix_recommendations_unfold unique_loop_start c_def f_def)
  have "distinct f"
    by (simp add: f_def distinct_first_occurrences)
  then have d: "distinct (slice_to n f)"
    by (rule distinct_slice_to)
  have "set f \<subseteq> set c"
    by (auto simp: f_def set_first_occurrences)
  with set_slice_to [of n f] have s: "set (slice_to n f) \<subseteq> set c"
    by blast
  have "sorted_wrt (\<lambda>a b. first_index c a < first_index c b) f"
    unfolding f_def by (rule sorted_wrt_filter [OF sorted_first_occurrences])
  then have o: "sorted_wrt (\<lambda>a b. first_index c a < first_index c b) (slice_to n f)"
    by (rule sorted_wrt_slice_to)
  from d s o show ?thesis
    unfolding r c_def by simp
qed

text \<open>
  User \<open>u1\<close> with history \<open>t4\<close>: the candidates are \<open>t1, t2, t3\<close> (personal), \<open>t1\<close> (similar
  to \<open>t4\<close>) and \<open>t5, p3\<close> (popular, \<open>t1\<close> being there already); \<open>t1\<close> is returned once, at
  its personal position.
\<close>

theorem mix_distinct_first_occurrence_witness:
  "all_recommendations
     (fst (get_personal_recommendations stable_argsort ''u1'' 6 demo_engine))
     (fst (get_similar_tracks stable_argsort [''t4''] 2 demo_engine))
     (fst (get_top_popular (6 * 2) demo_engine)) [''t4''] 6 =
     [''t1'', ''t2'', ''t3'', ''t1'', ''t5'', ''p3''] \<and>
   fst (fst (mix_recommendations stable_argsort ''u1'' [''t4''] 6 demo_engine)) =
     [''t1'', ''t2'', ''t3'', ''t5'', ''p3''] \<and>
   distinct (fst (fst (mix_recommendations stable_argsort ''u1'' [''t4''] 6 demo_engine)))"
proof -
  have "all_recommendations
     (fst (get_personal_recommendations stable_argsort ''u1'' 6 demo_engine))
     (fst (get_similar_tracks stable_argsort [''t4''] 2 demo_engine))
     (fst (get_top_popular (6 * 2) demo_engine)) [''t4''] 6 =
     [''t1'', ''t2'', ''t3'', ''t1'', ''t5'', ''p3'']"
    by (simp add: engine_defs demo_engine_def stable_argsort_def)
  moreover have "fst (fst (mix_recommendations stable_argsort ''u1'' [''t4''] 6 demo_engine)) =
     [''t1'', ''t2'', ''t3'', ''t5'', ''p3'']"
    by (simp add: engine_defs demo_engine_def stable_argsort_def)
  ultimately show ?thesis
    using mix_distinct_first_occurrence [of stable_argsort "''u1''" "[''t4'']" 6 demo_engine]
    by simp
qed

section \<open>Popularity fallback\<close>

lemma length_distinct_same_set:
  "distinct xs \<Longrightarrow> set xs = set ys \<Longrightarrow> length xs = length (remdups ys)"
  by (metis distinct_card length_remdups_card_conv)

lemma all_recommendations_nothing:
  "all_recommendations [] [] popular online_history n = (if 0 < n then popular else [])"
  by (simp add: all_recommendations_def)

text \<open>
  C5 (amended). Let \<open>n_recommendations \<ge> 0\<close>, the personal result and the similar-online
  result both empty, and let the popularity pool, which is the first
  \<open>2 * n_recommendations\<close> rows of the popularity table, hold at least \<open>n_recommendations\<close>
  different track ids that are not in \<^verbatim>\<open>online_history\<close>. Then the returned list has exactly
  \<open>n_recommendations\<close> entries: the first \<open>n_recommendations\<close> different tracks of the pool
  that are not in the history, in popularity order.
\<close>

theorem fallback_completeness:
  assumes "0 \<le> n"
    and "fst (get_personal_recommendations argsort user_id n self) = []"
    and "fst (get_similar_tracks argsort online_history 2 self) = []"
    and "n \<le> int (length (remdups (filter (\<lambda>t. t \<notin> set online_history)
                                 (fst (get_top_popular (n * 2) self)))))"
  shows "length (fst (fst (mix_recommendations argsort user_id online_history n self))) = nat n \<and>
         fst (fst (mix_recommendations argsort user_id online_history n self)) =
           take (nat n) (filter (\<lambda>t. t \<notin> set online_history)
                           (first_occurrences (fst (get_top_popular (n * 2) self)))) \<and>
         sorted_wrt (\<lambda>a b. first_index (fst (get_top_popular (n * 2) self)) a
                          < first_index (fst (get_top_popular (n * 2) self)) b)
           (fst (fst (mix_recommendations argsort user_id online_history n self)))"
proof -
  define pool where "pool = fst (get_top_popular (n * 2) self)"
  define f where "f = filter (\<lambda>t. t \<notin> set online_history) (first_occurrences pool)"
  have r: "fst (fst (mix_recommendations argsort user_id online_history n self)) = take (nat n) f"
  proof (cases "0 < n")
    case True
    with assms(2,3) show ?thesis
      by (simp add: mix_recommendations_unfold all_recommendations_nothing unique_loop_start
          slice_to_nonneg pool_def f_def)
  next
    case False
    with assms(1) have "n = 0" by simp
    then show ?thesis
      by (simp add: mix_recommendations_unfold slice_to_nonneg)
  qed
  have "distinct f"
    by (simp add: f_def distinct_first_occurrences)
  moreover have "set f = set (filter (\<lambda>t. t \<notin> set online_history) pool)"
    by (auto simp: f_def set_first_occurrences)
  ultimately have "length f = length (remdups (filter (\<lambda>t. t \<notin> set online_history) pool))"
    by (rule length_distinct_same_set)
  with assms(4) have "nat n \<le> length f"
    by (simp add: pool_def)
  then have len: "length (take (nat n) f) = nat n"
    by simp
  have "sorted_wrt (\<lambda>a b. first_index pool a < first_index pool b) f"
    unfolding f_def by (rule sorted_wrt_filter [OF sorted_first_occurrences])
  then have "sorted_wrt (\<lambda>a b. first_index pool a < first_index pool b) (take (nat n) f)"
    by (rule sorted_wrt_take)
  with len show ?thesis
    unfolding r by (simp add: f_def pool_def)
qed

text \<open>
  The demo tables without the similarity rows, an unknown user, history \<open>t5\<close> and two
  recommendations: the pool is \<open>t1, t5, p3\<close>, and \<open>t1, p3\<close> is returned.
\<close>

theorem fallback_completeness_witness:
  "fst (fst (mix_recommendations stable_argsort ''nobody'' [''t5''] 2
       (demo_engine\<lparr>similar_tracks := []\<rparr>))) = [''t1'', ''p3'']"
proof -
  let ?e = "demo_engine\<lparr>similar_tracks := []\<rparr>"
  have 1: "(0::int) \<le> 2" by simp
  have 2: "fst (get_personal_recommendations stable_argsort ''nobody'' 2 ?e) = []"
    by (simp add: engine_defs demo_engine_def stable_argsort_def)
  have 3: "fst (get_similar_tracks stable_argsort [''t5''] 2 ?e) = []"
    by (simp add: engine_defs demo_engine_def stable_argsort_def)
  have pool: "fst (get_top_popular 4 ?e) = [''t1'', ''t5'', ''p3'']"
    by (simp add: engine_defs demo_engine_def)
  have 4: "2 \<le> int (length (remdups (filter (\<lambda>t. t \<notin> set [''t5''])
                                 (fst (get_top_popular (2 * 2) ?e)))))"
    by (simp add: pool)
  from fallback_completeness [OF 1 2 3 4] show ?thesis
    by (simp add: pool)
qed

text \<open>
  The claim as stated counts the rows of the whole popularity table. It fails in three
  ways. With one recommendation asked and the two just-played tracks at the top of the
  table, the pool of two rows holds nothing new, and the list is empty although a third row
  is not in the history. With a track listed twice in the table, two rows are not in the
  history, and one track is returned where two are asked. With \<open>n_recommendations = -1\<close>
  the list is empty, and no list has \<open>-1\<close> entries.
\<close>

theorem fallback_completeness_counterexample:
  "fst (get_personal_recommendations stable_argsort ''u'' 1 popular_only_engine) = [] \<and>
   fst (get_similar_tracks stable_argsort [''h1'', ''h2''] 2 popular_only_engine) = [] \<and>
   (1::int) \<le> int (length (filter (\<lambda>r. tp_track_id r \<notin> set [''h1'', ''h2''])
                              (top_popular popular_only_engine))) \<and>
   fst (fst (mix_recommendations stable_argsort ''u'' [''h1'', ''h2''] 1 popular_only_engine)) = [] \<and>
   fst (get_personal_recommendations stable_argsort ''u'' 2 repeated_popular_engine) = [] \<and>
   fst (get_similar_tracks stable_argsort [] 2 repeated_popular_engine) = [] \<and>
   (2::int) \<le> int (length (filter (\<lambda>r. tp_track_id r \<notin> set [])
                              (top_popular repeated_popular_engine))) \<and>
   fst (fst (mix_recommendations stable_argsort ''u'' [] 2 repeated_popular_engine)) = [''a''] \<and>
   fst (get_personal_recommendations stable_argsort ''u'' (- 1) popular_only_engine) = [] \<and>
   fst (get_similar_tracks stable_argsort [] 2 popular_only_engine) = [] \<and>
   (- 1::int) \<le> int (length (filter (\<lambda>r. tp_track_id r \<notin> set [])
                              (top_popular popular_only_engine))) \<and>
   fst (fst (mix_recommendations stable_argsort ''u'' [] (- 1) popular_only_engine)) = []"
  by (simp add: engine_defs popular_only_engine_def repeated_popular_engine_def stable_argsort_def)

section \<open>Similar tracks\<close>

lemma similar_loop_concat:
  "fst (similar_loop argsort k ts acc self) =
     acc @ concat (map (\<lambda>t. map st_similar_track_id
                          (head k (sort_values argsort st_similarity_score
                             (filter (\<lambda>r. st_track_id r = t) (similar_tracks self))))) ts)"
  by (induction ts arbitrary: acc) (simp_all add: Let_def head_def)

lemma get_similar_tracks_concat:
  "fst (get_similar_tracks argsort ts k self) =
     concat (map (\<lambda>t. map st_similar_track_id
                     (head k (sort_values argsort st_similarity_score
                        (filter (\<lambda>r. st_track_id r = t) (similar_tracks self))))) ts)"
  by (simp add: get_similar_tracks_def similar_loop_concat)

lemma length_concat_bound:
  "(\<And>t. length (f t) \<le> m) \<Longrightarrow> length (concat (map f ts)) \<le> length ts * m"
proof (induction ts)
  case Nil
  show ?case by simp
next
  case (Cons t ts)
  from Cons.prems have "length (f t) \<le> m" .
  moreover from Cons have "length (concat (map f ts)) \<le> length ts * m" by simp
  ultimately show ?case by simp
qed

lemma length_head: "0 \<le> k \<Longrightarrow> length (head k xs) \<le> nat k"
  by (simp add: head_def slice_to_def)

lemma get_personal_recommendations_sorted:
  "fst (get_personal_recommendations argsort user_id n self) =
     map pr_track_id (head n (sort_values argsort pr_score
        (filter (\<lambda>r. pr_user_id r = user_id) (personal_recs self))))"
  by (simp add: get_personal_recommendations_def Let_def head_def)

lemma sort_values_stable_ties:
  "filter (\<lambda>r. col r = x) (sort_values stable_argsort col df) = filter (\<lambda>r. col r = x) df"
  using sort_key_stable [of "\<lambda>r. - col r" "- x" df]
  by (simp add: sort_values_stable_argsort)

text \<open>
  C7 (amended). For \<open>n_per_track \<ge> 0\<close>, \<^verbatim>\<open>get_similar_tracks\<close> returns at most
  \<open>len(track_ids) * n_per_track\<close> tracks. For every \<open>n_per_track\<close>, negative ones too, its
  result is the concatenation, in the order of the seeds given, of what each seed
  contributes: the first \<open>n_per_track\<close> similar tracks of the seed's rows sorted by
  similarity, descending. So the result for two seed lists in a row is the two results in
  a row, a seed with no rows contributes nothing and the seeds after it are still
  processed, and no seeds give no tracks.
\<close>

theorem similar_tracks_per_seed:
  assumes "descending_argsort argsort"
  shows "(0 \<le> k \<longrightarrow>
            int (length (fst (get_similar_tracks argsort ts k self))) \<le> int (length ts) * k) \<and>
         fst (get_similar_tracks argsort ts k self) =
           concat (map (\<lambda>t. map st_similar_track_id
                           (head k (sort_values argsort st_similarity_score
                              (filter (\<lambda>r. st_track_id r = t) (similar_tracks self))))) ts) \<and>
         mset (sort_values argsort st_similarity_score
                 (filter (\<lambda>r. st_track_id r = t) (similar_tracks self))) =
           mset (filter (\<lambda>r. st_track_id r = t) (similar_tracks self)) \<and>
         sorted (rev (map st_similarity_score
                        (sort_values argsort st_similarity_score
                           (filter (\<lambda>r. st_track_id r = t) (similar_tracks self))))) \<and>
         fst (get_similar_tracks argsort (ts @ us) k self) =
           fst (get_similar_tracks argsort ts k self) @ fst (get_similar_tracks argsort us k self) \<and>
         (filter (\<lambda>r. st_track_id r = t) (similar_tracks self) = [] \<longrightarrow>
            fst (get_similar_tracks argsort (ts @ t # us) k self) =
              fst (get_similar_tracks argsort (ts @ us) k self)) \<and>
         fst (get_similar_tracks argsort [] k self) = []"
proof -
  let ?rows = "\<lambda>t. sort_values argsort st_similarity_score
                    (filter (\<lambda>r. st_track_id r = t) (similar_tracks self))"
  let ?f = "\<lambda>t. map st_similar_track_id (head k (?rows t))"
  have eq: "fst (get_similar_tracks argsort xs k self) = concat (map ?f xs)" for xs
    by (rule get_similar_tracks_concat)
  have bound: "int (length (fst (get_similar_tracks argsort ts k self))) \<le> int (length ts) * k"
    if nonneg: "0 \<le> k"
  proof -
    have "length (concat (map ?f ts)) \<le> length ts * nat k"
      by (rule length_concat_bound) (simp add: length_head nonneg)
    then have "int (length (concat (map ?f ts))) \<le> int (length ts * nat k)"
      by (simp only: of_nat_le_iff)
    with nonneg have "int (length (concat (map ?f ts))) \<le> int (length ts) * k"
      by simp
    then show ?thesis
      by (simp only: eq)
  qed
  have perm: "mset (?rows t) = mset (filter (\<lambda>r. st_track_id r = t) (similar_tracks self))"
    by (rule mset_sort_values [OF assms])
  have desc: "sorted (rev (map st_similarity_score (?rows t)))"
    by (rule sorted_sort_values [OF assms])
  have app: "fst (get_similar_tracks argsort (ts @ us) k self) =
      fst (get_similar_tracks argsort ts k self) @ fst (get_similar_tracks argsort us k self)"
    by (simp only: eq map_append concat_append)
  have skip: "fst (get_similar_tracks argsort (ts @ t # us) k self) =
      fst (get_similar_tracks argsort (ts @ us) k self)"
    if none: "filter (\<lambda>r. st_track_id r = t) (similar_tracks self) = []"
  proof -
    have "?rows t = []"
      unfolding none by (rule sort_values_Nil [OF assms])
    then have "?f t = []"
      by (simp add: head_def)
    then show ?thesis
      by (simp only: eq map_append concat_append list.map concat.simps append_Nil)
  qed
  have nil: "fst (get_similar_tracks argsort [] k self) = []"
    by (simp add: get_similar_tracks_def)
  from bound eq [of ts] perm desc app skip nil show ?thesis
    by blast
qed

text \<open>
  Seeds \<open>t9, t5, t4\<close> with one track per seed: \<open>t9\<close> has no rows, \<open>t5\<close> gives its most
  similar track \<open>t6\<close>, \<open>t4\<close> gives \<open>t1\<close>. With \<open>n_per_track = -1\<close> the seed \<open>t9\<close> is
  skipped in the same way.
\<close>

theorem similar_tracks_per_seed_witness:
  "fst (get_similar_tracks stable_argsort [''t9'', ''t5'', ''t4''] 1 demo_engine) = [''t6'', ''t1''] \<and>
   int (length (fst (get_similar_tracks stable_argsort [''t9'', ''t5'', ''t4''] 1 demo_engine)))
     \<le> int (length [''t9'', ''t5'', ''t4'']) * 1 \<and>
   fst (get_similar_tracks stable_argsort ([] @ ''t9'' # [''t5'', ''t4'']) (- 1) demo_engine) =
     fst (get_similar_tracks stable_argsort ([] @ [''t5'', ''t4'']) (- 1) demo_engine)"
proof -
  have res: "fst (get_similar_tracks stable_argsort [''t9'', ''t5'', ''t4''] 1 demo_engine) =
      [''t6'', ''t1'']"
    by (simp add: engine_defs demo_engine_def stable_argsort_def)
  have nonneg: "(0::int) \<le> 1" by simp
  have "0 \<le> (1::int) \<longrightarrow>
      int (length (fst (get_similar_tracks stable_argsort [''t9'', ''t5'', ''t4''] 1 demo_engine)))
        \<le> int (length [''t9'', ''t5'', ''t4'']) * 1"
    using similar_tracks_per_seed [OF stable_argsort_descending] by (rule conjunct1)
  then have len: "int (length (fst (get_similar_tracks stable_argsort [''t9'', ''t5'', ''t4''] 1
      demo_engine))) \<le> int (length [''t9'', ''t5'', ''t4'']) * 1"
    using nonneg by (rule mp)
  have none: "filter (\<lambda>r. st_track_id r = ''t9'') (similar_tracks demo_engine) = []"
    by (simp add: demo_engine_def)
  have "filter (\<lambda>r. st_track_id r = ''t9'') (similar_tracks demo_engine) = [] \<longrightarrow>
      fst (get_similar_tracks stable_argsort ([] @ ''t9'' # [''t5'', ''t4'']) (- 1) demo_engine) =
        fst (get_similar_tracks stable_argsort ([] @ [''t5'', ''t4'']) (- 1) demo_engine)"
    using similar_tracks_per_seed [OF stable_argsort_descending,
        of "- 1" "[]" demo_engine "''t9''" "[''t5'', ''t4'']"]
    by blast
  then have skipped:
      "fst (get_similar_tracks stable_argsort ([] @ ''t9'' # [''t5'', ''t4'']) (- 1) demo_engine) =
        fst (get_similar_tracks stable_argsort ([] @ [''t5'', ''t4'']) (- 1) demo_engine)"
    using none by (rule mp)
  from res len skipped show ?thesis by (intro conjI)
qed

text \<open>
  The length bound as stated fails for a negative \<open>n_per_track\<close>: \<^verbatim>\<open>head(-1)\<close> keeps all
  rows of the seed but the last, so seed \<open>t5\<close> with its two rows gives one track, and the
  bound \<open>1 * (-1)\<close> is negative.
\<close>

theorem similar_tracks_per_seed_counterexample:
  "fst (get_similar_tracks stable_argsort [''t5''] (- 1) demo_engine) = [''t6''] \<and>
   \<not> int (length (fst (get_similar_tracks stable_argsort [''t5''] (- 1) demo_engine)))
       \<le> int (length [''t5'']) * (- 1)"
proof -
  have res: "fst (get_similar_tracks stable_argsort [''t5''] (- 1) demo_engine) = [''t6'']"
    by (simp add: engine_defs demo_engine_def stable_argsort_def)
  show ?thesis
    unfolding res by simp
qed

section \<open>Order of rows with equal scores\<close>

text \<open>
  C6 (amended). \<^verbatim>\<open>get_personal_recommendations\<close> and \<^verbatim>\<open>get_similar_tracks\<close> return the
  track column of the first \<open>n\<close> rows of the matching rows sorted by score (by similarity
  score), descending: a rearrangement of the matching rows whose scores do not increase.
  The engine asks the library for no particular sort, so the order among rows with equal
  scores is the one the library's sort leaves; when that sort is stable, rows with equal
  scores keep their order in the table.
\<close>

theorem sorted_by_score_descending:
  assumes "descending_argsort argsort"
  shows "fst (get_personal_recommendations argsort user_id n self) =
           map pr_track_id (head n (sort_values argsort pr_score
              (filter (\<lambda>r. pr_user_id r = user_id) (personal_recs self)))) \<and>
         mset (sort_values argsort pr_score
                 (filter (\<lambda>r. pr_user_id r = user_id) (personal_recs self))) =
           mset (filter (\<lambda>r. pr_user_id r = user_id) (personal_recs self)) \<and>
         sorted (rev (map pr_score (sort_values argsort pr_score
                        (filter (\<lambda>r. pr_user_id r = user_id) (personal_recs self))))) \<and>
         fst (get_similar_tracks argsort [t] k self) =
           map st_similar_track_id (head k (sort_values argsort st_similarity_score
              (filter (\<lambda>r. st_track_id r = t) (similar_tracks self)))) \<and>
         mset (sort_values argsort st_similarity_score
                 (filter (\<lambda>r. st_track_id r = t) (similar_tracks self))) =
           mset (filter (\<lambda>r. st_track_id r = t) (similar_tracks self)) \<and>
         sorted (rev (map st_similarity_score (sort_values argsort st_similarity_score
                        (filter (\<lambda>r. st_track_id r = t) (similar_tracks self))))) \<and>
         filter (\<lambda>r. pr_score r = x) (sort_values stable_argsort pr_score
              (filter (\<lambda>r. pr_user_id r = user_id) (personal_recs self))) =
           filter (\<lambda>r. pr_score r = x) (filter (\<lambda>r. pr_user_id r = user_id) (personal_recs self)) \<and>
         filter (\<lambda>r. st_similarity_score r = x) (sort_values stable_argsort st_similarity_score
              (filter (\<lambda>r. st_track_id r = t) (similar_tracks self))) =
           filter (\<lambda>r. st_similarity_score r = x)
             (filter (\<lambda>r. st_track_id r = t) (similar_tracks self))"
proof -
  have one: "fst (get_similar_tracks argsort [t] k self) =
      map st_similar_track_id (head k (sort_values argsort st_similarity_score
         (filter (\<lambda>r. st_track_id r = t) (similar_tracks self))))"
    by (simp add: get_similar_tracks_concat)
  show ?thesis
    by (intro conjI get_personal_recommendations_sorted one mset_sort_values [OF assms]
        sorted_sort_values [OF assms] sort_values_stable_ties)
qed

text \<open>
  With the stable sort, user \<open>u1\<close> gets \<open>t1\<close> (0.9) and then \<open>t2, t3\<close> (both 0.5) in table
  order, and the two equal rows of the tie tables come back in table order.
\<close>

theorem sorted_by_score_descending_witness:
  "fst (get_personal_recommendations stable_argsort ''u1'' 3 demo_engine) =
     [''t1'', ''t2'', ''t3''] \<and>
   fst (get_personal_recommendations stable_argsort ''u'' 2 tie_engine) = [''a'', ''b'']"
proof -
  have demo_rows: "sort_values stable_argsort pr_score
          (filter (\<lambda>r. pr_user_id r = ''u1'') (personal_recs demo_engine)) =
        [\<lparr>pr_user_id = ''u1'', pr_track_id = ''t1'', pr_score = 0.9\<rparr>,
         \<lparr>pr_user_id = ''u1'', pr_track_id = ''t2'', pr_score = 0.5\<rparr>,
         \<lparr>pr_user_id = ''u1'', pr_track_id = ''t3'', pr_score = 0.5\<rparr>]"
    by (simp add: sort_values_def demo_engine_def stable_argsort_def)
  have tie_rows: "sort_values stable_argsort pr_score
          (filter (\<lambda>r. pr_user_id r = ''u'') (personal_recs tie_engine)) =
        [\<lparr>pr_user_id = ''u'', pr_track_id = ''a'', pr_score = 1\<rparr>,
         \<lparr>pr_user_id = ''u'', pr_track_id = ''b'', pr_score = 1\<rparr>]"
    by (simp add: sort_values_def tie_engine_def stable_argsort_def)
  have "fst (get_personal_recommendations stable_argsort ''u1'' 3 demo_engine) =
      map pr_track_id (head 3 (sort_values stable_argsort pr_score
         (filter (\<lambda>r. pr_user_id r = ''u1'') (personal_recs demo_engine))))"
    using sorted_by_score_descending [OF stable_argsort_descending] by (rule conjunct1)
  then have demo: "fst (get_personal_recommendations stable_argsort ''u1'' 3 demo_engine) =
      [''t1'', ''t2'', ''t3'']"
    by (simp add: demo_rows head_def slice_to_def)
  have "fst (get_personal_recommendations stable_argsort ''u'' 2 tie_engine) =
      map pr_track_id (head 2 (sort_values stable_argsort pr_score
         (filter (\<lambda>r. pr_user_id r = ''u'') (personal_recs tie_engine))))"
    using sorted_by_score_descending [OF stable_argsort_descending] by (rule conjunct1)
  then have "fst (get_personal_recommendations stable_argsort ''u'' 2 tie_engine) = [''a'', ''b'']"
    by (simp add: tie_rows head_def slice_to_def)
  with demo show ?thesis by (rule conjI)
qed

text \<open>
  The claim as stated fails on the four-row tie tables. The engine asks the library for no
  stable sort, and with the reversing sort the rows of each group of equal score come back
  in the opposite of their table order, from both methods: \<open>k3\<close> before \<open>k2\<close> and \<open>k1\<close>
  before \<open>k0\<close>, where the stable order would be \<open>k2, k3, k0, k1\<close>.
\<close>

theorem stable_ties_counterexample:
  "descending_argsort reversing_argsort \<and>
   map pr_track_id (personal_recs four_tie_engine) = [''k0'', ''k1'', ''k2'', ''k3''] \<and>
   map pr_score (personal_recs four_tie_engine) = [1, 1, 2, 2] \<and>
   fst (get_personal_recommendations reversing_argsort ''u'' 4 four_tie_engine) =
     [''k3'', ''k2'', ''k1'', ''k0''] \<and>
   map st_similar_track_id (similar_tracks four_tie_engine) = [''k0'', ''k1'', ''k2'', ''k3''] \<and>
   map st_similarity_score (similar_tracks four_tie_engine) = [1, 1, 2, 2] \<and>
   fst (get_similar_tracks reversing_argsort [''s''] 4 four_tie_engine) =
     [''k3'', ''k2'', ''k1'', ''k0'']"
proof -
  have personal: "fst (get_personal_recommendations reversing_argsort ''u'' 4 four_tie_engine) =
      [''k3'', ''k2'', ''k1'', ''k0'']"
    by (simp add: engine_defs four_tie_engine_def reversing_argsort_def)
  have similar: "fst (get_similar_tracks reversing_argsort [''s''] 4 four_tie_engine) =
      [''k3'', ''k2'', ''k1'', ''k0'']"
    by (simp add: engine_defs four_tie_engine_def reversing_argsort_def)
  have tables: "map pr_track_id (personal_recs four_tie_engine) = [''k0'', ''k1'', ''k2'', ''k3'']"
    "map pr_score (personal_recs four_tie_engine) = [1, 1, 2, 2]"
    "map st_similar_track_id (similar_tracks four_tie_engine) = [''k0'', ''k1'', ''k2'', ''k3'']"
    "map st_similarity_score (similar_tracks four_tie_engine) = [1, 1, 2, 2]"
    by (simp_all add: four_tie_engine_def)
  from reversing_argsort_descending tables personal similar show ?thesis
    by (intro conjI)
qed

section \<open>The tables are not changed\<close>

text \<open>
  C9. No method of the engine changes the tables: after \<^verbatim>\<open>get_personal_recommendations\<close>,
  \<^verbatim>\<open>get_similar_tracks\<close>, \<^verbatim>\<open>get_top_popular\<close> and \<^verbatim>\<open>mix_recommendations\<close> the engine, that
  is its personal, similarity and popularity tables, is what it was before the call.
\<close>

theorem engine_tables_unchanged:
  "snd (get_personal_recommendations argsort user_id n self) = self \<and>
   snd (get_similar_tracks argsort track_ids k self) = self \<and>
   snd (get_top_popular n self) = self \<and>
   snd (mix_recommendations argsort user_id online_history n self) = self"
  by (simp add: get_personal_recommendations_self get_similar_tracks_self get_top_popular_self
      mix_recommendations_unfold)

text \<open>The demo tables after a call of \<^verbatim>\<open>mix_recommendations\<close>.\<close>

theorem engine_tables_unchanged_witness:
  "snd (mix_recommendations stable_argsort ''u1'' [''t5''] 5 demo_engine) = demo_engine \<and>
   personal_recs (snd (mix_recommendations stable_argsort ''u1'' [''t5''] 5 demo_engine)) =
     personal_recs demo_engine"
proof -
  have "snd (mix_recommendations stable_argsort ''u1'' [''t5''] 5 demo_engine) = demo_engine"
    using engine_tables_unchanged [of stable_argsort "''u1''" 5 demo_engine "[]" 2 "[''t5'']"]
    by (elim conjE)
  then show ?thesis by simp
qed

section \<open>Determinism\<close>








section \<open>The gate of the popularity tier\<close>

lemma all_recommendations_full:
  "n \<le> int (length (personal @ (if online_history \<noteq> [] then similar_online else []))) \<Longrightarrow>
     all_recommendations personal similar_online popular online_history n =
       personal @ (if online_history \<noteq> [] then similar_online else [])"
  by (cases "online_history = []") (simp_all add: all_recommendations_def Let_def)

lemma played_engine_mix:
  assumes "descending_argsort argsort"
  shows "fst (get_personal_recommendations argsort ''u'' 1 played_engine) = [''a'']"
    and "fst (mix_recommendations argsort ''u'' [''a''] 1 played_engine) =
           ([], ''online_history + personal'')"
proof -
  have rows: "sort_values argsort pr_score
      (filter (\<lambda>r. pr_user_id r = ''u'') (personal_recs played_engine)) =
      [\<lparr>pr_user_id = ''u'', pr_track_id = ''a'', pr_score = 1\<rparr>]"
    by (simp add: played_engine_def sort_values_single [OF assms])
  show personal: "fst (get_personal_recommendations argsort ''u'' 1 played_engine) = [''a'']"
    by (simp add: get_personal_recommendations_sorted rows head_def slice_to_def)
  have similar: "fst (get_similar_tracks argsort [''a''] 2 played_engine) = []"
    by (simp add: get_similar_tracks_concat played_engine_def sort_values_Nil [OF assms] head_def)
  show "fst (mix_recommendations argsort ''u'' [''a''] 1 played_engine) =
      ([], ''online_history + personal'')"
    by (simp add: mix_recommendations_unfold personal similar all_recommendations_def
        strategy_of_def slice_to_def)
qed

text \<open>
  C10. The popularity tier is gated on the number of candidates counted before
  deduplication and before the history filter: once the personal tracks, with the similar
  ones when there is a history, number \<open>n_recommendations\<close> or more, no popular track
  becomes a candidate. So there is a request for which the popularity table has
  \<open>n_recommendations\<close> tracks outside the history, the personal tracks alone number
  \<open>n_recommendations\<close> and all lie in the history, and the returned list is empty.
\<close>

theorem fallback_gated_before_filtering:
  "descending_argsort argsort \<Longrightarrow>
   (n \<le> int (length (personal @ (if history \<noteq> [] then similar_online else []))) \<longrightarrow>
      all_recommendations personal similar_online popular history n =
        personal @ (if history \<noteq> [] then similar_online else [])) \<and>
   (\<exists>self user_id online_history m.
     0 < m \<and>
     m \<le> int (length (filter (\<lambda>r. tp_track_id r \<notin> set online_history) (top_popular self))) \<and>
     m \<le> int (length (fst (get_personal_recommendations argsort user_id m self))) \<and>
     set (fst (get_personal_recommendations argsort user_id m self)) \<subseteq> set online_history \<and>
     fst (fst (mix_recommendations argsort user_id online_history m self)) = [])"
proof -
  assume ok: "descending_argsort argsort"
  have "0 < (1::int) \<and>
     1 \<le> int (length (filter (\<lambda>r. tp_track_id r \<notin> set [''a'']) (top_popular played_engine))) \<and>
     1 \<le> int (length (fst (get_personal_recommendations argsort ''u'' 1 played_engine))) \<and>
     set (fst (get_personal_recommendations argsort ''u'' 1 played_engine)) \<subseteq> set [''a''] \<and>
     fst (fst (mix_recommendations argsort ''u'' [''a''] 1 played_engine)) = []"
    by (simp add: played_engine_mix [OF ok]) (simp add: played_engine_def)
  then have "\<exists>self user_id online_history m.
     0 < m \<and>
     m \<le> int (length (filter (\<lambda>r. tp_track_id r \<notin> set online_history) (top_popular self))) \<and>
     m \<le> int (length (fst (get_personal_recommendations argsort user_id m self))) \<and>
     set (fst (get_personal_recommendations argsort user_id m self)) \<subseteq> set online_history \<and>
     fst (fst (mix_recommendations argsort user_id online_history m self)) = []"
    by blast
  then show ?thesis
    using all_recommendations_full [of n personal history similar_online popular] by blast
qed

text \<open>
  With the stable sort: the one personal track \<open>a\<close> fills the count of one, the popular
  track \<open>p\<close> never becomes a candidate, and \<open>a\<close> is then removed as just played.
\<close>

theorem fallback_gated_before_filtering_witness:
  "all_recommendations [''a''] [] [''p''] [''a''] 1 = [''a''] \<and>
   (\<exists>self user_id online_history m.
     0 < m \<and>
     m \<le> int (length (filter (\<lambda>r. tp_track_id r \<notin> set online_history) (top_popular self))) \<and>
     m \<le> int (length (fst (get_personal_recommendations stable_argsort user_id m self))) \<and>
     set (fst (get_personal_recommendations stable_argsort user_id m self)) \<subseteq> set online_history \<and>
     fst (fst (mix_recommendations stable_argsort user_id online_history m self)) = [])"
proof -
  note gate = fallback_gated_before_filtering [OF stable_argsort_descending,
      of 1 "[''a'']" "[''a'']" "[]" "[''p'']"]
  from gate have "all_recommendations [''a''] [] [''p''] [''a''] 1 = [''a'']"
    by simp
  moreover from gate have "\<exists>self user_id online_history m.
     0 < m \<and>
     m \<le> int (length (filter (\<lambda>r. tp_track_id r \<notin> set online_history) (top_popular self))) \<and>
     m \<le> int (length (fst (get_personal_recommendations stable_argsort user_id m self))) \<and>
     set (fst (get_personal_recommendations stable_argsort user_id m self)) \<subseteq> set online_history \<and>
     fst (fst (mix_recommendations stable_argsort user_id online_history m self)) = []"
    by (rule conjunct2)
  ultimately show ?thesis by (rule conjI)
qed


end
